theory Spec2Isabelle
  imports Main
begin

section \<open>The CoAP server binding: data model\<close>

text \<open>
  The development embeds \<^verbatim>\<open>packages/binding-coap/src/coap-server.ts\<close>: the class
  \<^verbatim>\<open>CoapServer\<close> with its registry \<^verbatim>\<open>things\<close>, the operations \<^verbatim>\<open>getPort\<close>,
  \<^verbatim>\<open>expose\<close>, \<^verbatim>\<open>destroy\<close> and the request handler \<^verbatim>\<open>handleRequest\<close> together
  with the callbacks it installs (the interval callback of a property observation, the
  listener of an event subscription and the \<^verbatim>\<open>finish\<close> listeners).

  Calls of \<^verbatim>\<open>console\<close> are left out everywhere: they write a log line and touch
  nothing else. The \<^verbatim>\<open>finish\<close> listener that the handler registers first of all
  has one such call as its body: its registration is recorded, and it does nothing
  when it runs.
\<close>

subsection \<open>JavaScript values\<close>

datatype jsval =
    JUndefined
  | JNull
  | JBool bool
  | JNum int
  | JStr string
  | JObj string

text \<open>\<^verbatim>\<open>if (output)\<close>: the truthiness of a value.\<close>

fun truthy :: "jsval \<Rightarrow> bool" where
  "truthy JUndefined = False"
| "truthy JNull = False"
| "truthy (JBool b) = b"
| "truthy (JNum n) = (n \<noteq> 0)"
| "truthy (JStr s) = (s \<noteq> [])"
| "truthy (JObj _) = True"

text \<open>
  \<^verbatim>\<open>!contentType\<close> for a header that is a string or \<^verbatim>\<open>undefined\<close>: the empty
  string is falsy as well.
\<close>

fun truthy_str :: "string option \<Rightarrow> bool" where
  "truthy_str None = False"
| "truthy_str (Some s) = (s \<noteq> [])"

text \<open>A promise that has settled: resolved with a value or rejected with a message.\<close>

datatype 'a settled = Resolved 'a | Rejected string

subsection \<open>Things\<close>

text \<open>
  \<^verbatim>\<open>form.op\<close> is a single operation name for an action and an array of names
  for a property or an event.
\<close>

datatype form_op = OpName string | OpList "string list"

record form =
  href :: string
  contentType :: string
  form_op :: "form_op option"

record property =
  readOnly :: bool
  writeOnly :: bool
  observable :: bool
  p_forms :: "form list"

record action =
  a_forms :: "form list"

record event =
  e_forms :: "form list"

text \<open>
  An \<^verbatim>\<open>ExposedThing\<close>. The objects \<^verbatim>\<open>properties\<close>, \<^verbatim>\<open>actions\<close> and
  \<^verbatim>\<open>events\<close> are association lists in the order \<^verbatim>\<open>for ... in\<close> enumerates
  their own keys.
\<close>

record thing =
  title :: string
  thing_id :: string
  properties :: "(string \<times> property) list"
  actions :: "(string \<times> action) list"
  events :: "(string \<times> event) list"

subsection \<open>The server\<close>

text \<open>
  \<^verbatim>\<open>sock\<close> is \<^verbatim>\<open>this.server._sock\<close>, reduced to the port its address reports;
  \<^verbatim>\<open>things\<close> is the \<^verbatim>\<open>Map\<close> from URL path to thing, as the list of its entries
  in insertion order (the order \<^verbatim>\<open>keys()\<close> enumerates). A \<^verbatim>\<open>Map\<close> holds a key
  once: see \<open>wf_things\<close>.
\<close>

record server =
  sock :: "int option"
  things :: "(string \<times> thing) list"

definition wf_things :: "(string \<times> thing) list \<Rightarrow> bool" where
  "wf_things m = distinct (map fst m)"

definition scheme :: string where
  "scheme = ''coap''"

definition PROPERTY_DIR :: string where
  "PROPERTY_DIR = ''properties''"

definition ACTION_DIR :: string where
  "ACTION_DIR = ''actions''"

definition EVENT_DIR :: string where
  "EVENT_DIR = ''events''"

text \<open>\<^verbatim>\<open>getPort\<close>: the port of the socket, or \<open>-1\<close> when the server is not running.\<close>

definition getPort :: "server \<Rightarrow> int" where
  "getPort srv = (case sock srv of Some p \<Rightarrow> p | None \<Rightarrow> - 1)"

text \<open>The operations of \<^verbatim>\<open>Map\<close> that the server uses.\<close>

definition things_has :: "(string \<times> thing) list \<Rightarrow> string \<Rightarrow> bool" where
  "things_has m k = (map_of m k \<noteq> None)"

definition things_keys :: "(string \<times> thing) list \<Rightarrow> string list" where
  "things_keys m = map fst m"

definition things_delete :: "string \<Rightarrow> (string \<times> thing) list \<Rightarrow> (string \<times> thing) list" where
  "things_delete k m = filter (\<lambda>e. fst e \<noteq> k) m"

text \<open>\<^verbatim>\<open>set\<close> replaces the value of a key in place and appends a new key.\<close>

fun things_set :: "string \<Rightarrow> thing \<Rightarrow> (string \<times> thing) list \<Rightarrow> (string \<times> thing) list" where
  "things_set k v [] = [(k, v)]"
| "things_set k v (e # m) = (if fst e = k then (k, v) # m else e # things_set k v m)"

section \<open>destroy\<close>

text \<open>
  The loop of \<^verbatim>\<open>destroy\<close> over \<^verbatim>\<open>Array.from(this.things.keys())\<close>: the state is
  the map and \<^verbatim>\<open>removedThing\<close> (\<open>None\<close> while it is undefined).
\<close>

fun destroy_loop ::
  "string \<Rightarrow> string list \<Rightarrow> (string \<times> thing) list \<times> thing option
    \<Rightarrow> (string \<times> thing) list \<times> thing option" where
  "destroy_loop thingId [] acc = acc"
| "destroy_loop thingId (name # names) (m, removedThing) =
     (case map_of m name of
        Some expThing \<Rightarrow>
          if thing_id expThing = thingId
          then destroy_loop thingId names (things_delete name m, Some expThing)
          else destroy_loop thingId names (m, removedThing)
      | None \<Rightarrow> destroy_loop thingId names (m, removedThing))"

text \<open>
  \<^verbatim>\<open>destroy\<close> returns the server with its map updated and the promise, which
  resolves with \<^verbatim>\<open>removedThing !== undefined\<close>.
\<close>

definition destroy :: "server \<Rightarrow> string \<Rightarrow> server \<times> bool settled" where
  "destroy srv thingId =
     (case destroy_loop thingId (things_keys (things srv)) (things srv, None) of
        (m, removedThing) \<Rightarrow> (srv\<lparr>things := m\<rparr>, Resolved (removedThing \<noteq> None)))"

section \<open>External collaborators\<close>

text \<open>
  What the server calls and does not define is a parameter of the model. \<open>helpers\<close>
  gathers \<^verbatim>\<open>slugify\<close> (with \<^verbatim>\<open>{ lower: true }\<close>), the functions of \<^verbatim>\<open>Helpers\<close>
  and \<^verbatim>\<open>ProtocolHelpers\<close>, and the platform's string functions: \<open>port_string\<close>
  is the conversion of the port number in a string concatenation, \<open>stringify_list\<close>
  and \<open>stringify_td\<close> are \<^verbatim>\<open>JSON.stringify\<close> of the listing and of
  \<^verbatim>\<open>thing.getThingDescription()\<close>. The three \<^verbatim>\<open>update...FormWithTemplate\<close>
  functions mutate the form they are given; here they return it, the template argument
  being part of the function. \<open>URL_pathname\<close> is the \<^verbatim>\<open>pathname\<close> of
  \<^verbatim>\<open>new URL(s)\<close> for an input with a scheme, and \<open>decodeURI\<close> is the platform's
  function of that name; each gives \<open>None\<close> where the platform throws.
\<close>

record helpers =
  slugify :: "string \<Rightarrow> string"
  generateUniqueName :: "string \<Rightarrow> string"
  getAddresses :: "string list"
  toUriLiteral :: "string \<Rightarrow> string"
  encodeURIComponent :: "string \<Rightarrow> string"
  port_string :: "int \<Rightarrow> string"
  stringify_list :: "string list \<Rightarrow> string"
  stringify_td :: "thing \<Rightarrow> string"
  updatePropertyFormWithTemplate :: "form \<Rightarrow> string \<Rightarrow> form"
  updateActionFormWithTemplate :: "form \<Rightarrow> string \<Rightarrow> form"
  updateEventFormWithTemplate :: "form \<Rightarrow> string \<Rightarrow> form"
  getPropertyContentType :: "thing \<Rightarrow> string \<Rightarrow> string"
  getActionContentType :: "thing \<Rightarrow> string \<Rightarrow> string"
  getEventContentType :: "thing \<Rightarrow> string \<Rightarrow> string"
  URL_pathname :: "string \<Rightarrow> string option"
  decodeURI :: "string \<Rightarrow> string option"

text \<open>
  \<open>codec\<close> is \<^verbatim>\<open>ContentSerdes\<close>. The data schema handed to the codec is the
  property itself, the input or the output of an action, or the data of an event. A
  conversion that throws returns \<open>Inl\<close> with the message of the error.
\<close>

record content =
  c_type :: string
  c_body :: string

datatype schema =
    PropertySchema property
  | ActionInput action
  | ActionOutput action
  | EventData event

record codec =
  DEFAULT :: string
  TD :: string
  getOfferedMediaTypes :: "string list"
  getSupportedMediaTypes :: "string list"
  getMediaType :: "string option \<Rightarrow> string"
  contentToValue :: "string option \<Rightarrow> string option \<Rightarrow> schema \<Rightarrow> string + jsval"
  valueToContent :: "jsval \<Rightarrow> schema \<Rightarrow> string \<Rightarrow> string + content"

text \<open>
  \<open>runtime\<close> gives the promise of each capability call of the \<^verbatim>\<open>ExposedThing\<close>
  as it settles.
\<close>

record runtime =
  readProperty :: "thing \<Rightarrow> string \<Rightarrow> jsval settled"
  writeProperty :: "thing \<Rightarrow> string \<Rightarrow> jsval \<Rightarrow> unit settled"
  invokeAction :: "thing \<Rightarrow> string \<Rightarrow> jsval \<Rightarrow> jsval settled"

section \<open>expose\<close>

definition new_Form :: "string \<Rightarrow> string \<Rightarrow> form" where
  "new_Form h t = \<lparr>href = h, contentType = t, form_op = None\<rparr>"

text \<open>
  \<^verbatim>\<open>form.op.push(name)\<close>. The server pushes only onto the array it has just
  assigned, so the other cases are never reached.
\<close>

fun op_push :: "string \<Rightarrow> form \<Rightarrow> form" where
  "op_push name f =
     (case form_op f of
        Some (OpList ops) \<Rightarrow> f\<lparr>form_op := Some (OpList (ops @ [name]))\<rparr>
      | _ \<Rightarrow> f)"

definition property_form :: "helpers \<Rightarrow> string \<Rightarrow> string \<Rightarrow> string \<Rightarrow> property \<Rightarrow> form" where
  "property_form h base type propertyName p =
     (let href = base @ ''/'' @ PROPERTY_DIR @ ''/'' @ encodeURIComponent h propertyName;
          form0 = updatePropertyFormWithTemplate h (new_Form href type) propertyName;
          form1 =
            (if readOnly p then form0\<lparr>form_op := Some (OpList [''readproperty''])\<rparr>
             else if writeOnly p then form0\<lparr>form_op := Some (OpList [''writeproperty''])\<rparr>
             else form0\<lparr>form_op := Some (OpList [''readproperty'', ''writeproperty''])\<rparr>)
      in if observable p
         then op_push ''unobserveproperty''
                (op_push ''observeproperty''
                  (if form_op form1 = None then form1\<lparr>form_op := Some (OpList [])\<rparr> else form1))
         else form1)"

definition action_form :: "helpers \<Rightarrow> string \<Rightarrow> string \<Rightarrow> string \<Rightarrow> form" where
  "action_form h base type actionName =
     (let href = base @ ''/'' @ ACTION_DIR @ ''/'' @ encodeURIComponent h actionName;
          form0 = updateActionFormWithTemplate h (new_Form href type) actionName
      in form0\<lparr>form_op := Some (OpName ''invokeaction'')\<rparr>)"

definition event_form :: "helpers \<Rightarrow> string \<Rightarrow> string \<Rightarrow> string \<Rightarrow> form" where
  "event_form h base type eventName =
     (let href = base @ ''/'' @ EVENT_DIR @ ''/'' @ encodeURIComponent h eventName;
          form0 = updateEventFormWithTemplate h (new_Form href type) eventName
      in form0\<lparr>form_op := Some (OpList [''subscribeevent'', ''unsubscribeevent''])\<rparr>)"

text \<open>
  The body of the two outer loops of \<^verbatim>\<open>expose\<close>: for one address and one media type,
  a form is pushed onto every property, then every action, then every event.
\<close>

definition bind_forms ::
  "helpers \<Rightarrow> server \<Rightarrow> string \<Rightarrow> string \<Rightarrow> string \<Rightarrow> thing \<Rightarrow> thing" where
  "bind_forms h srv urlPath address type t =
     (let base = scheme @ ''://'' @ address @ '':'' @ port_string h (getPort srv) @ ''/''
                   @ encodeURIComponent h urlPath
      in t\<lparr>properties :=
             map (\<lambda>(n, p). (n, p\<lparr>p_forms := p_forms p @ [property_form h base type n p]\<rparr>))
               (properties t),
           actions :=
             map (\<lambda>(n, a). (n, a\<lparr>a_forms := a_forms a @ [action_form h base type n]\<rparr>))
               (actions t),
           events :=
             map (\<lambda>(n, e). (n, e\<lparr>e_forms := e_forms e @ [event_form h base type n]\<rparr>))
               (events t)\<rparr>)"

text \<open>The URL path \<^verbatim>\<open>expose\<close> computes for a thing before it looks at the port.\<close>

definition urlPath_of :: "helpers \<Rightarrow> server \<Rightarrow> thing \<Rightarrow> string" where
  "urlPath_of h srv t =
     (let urlPath = slugify h (title t)
      in if things_has (things srv) urlPath then generateUniqueName h urlPath else urlPath)"

text \<open>
  \<^verbatim>\<open>expose\<close> returns the server, the thing as the loops have mutated it, and the
  promise. The registry holds the very object that the loops mutate, so its entry is
  the thing with the forms.
\<close>

definition expose :: "helpers \<Rightarrow> codec \<Rightarrow> server \<Rightarrow> thing \<Rightarrow> server \<times> thing \<times> unit settled" where
  "expose h c srv t =
     (let urlPath = urlPath_of h srv t
      in if getPort srv \<noteq> - 1
         then
           (let t' = fold (\<lambda>address t1.
                        fold (\<lambda>type t2. bind_forms h srv urlPath address type t2)
                          (getOfferedMediaTypes c) t1)
                      (getAddresses h) t
            in (srv\<lparr>things := things_set urlPath t' (things srv)\<rparr>, t', Resolved ()))
         else (srv, t, Resolved ()))"

section \<open>handleRequest\<close>

subsection \<open>Requests and what the handler does to the outside\<close>

text \<open>
  The packet of a response (\<^verbatim>\<open>res._packet\<close>): the fields the server writes, and the
  message id, which it leaves alone.
\<close>

record packet =
  pk_messageId :: nat
  pk_code :: string
  pk_payload :: string
  pk_reset :: bool
  pk_ack :: bool
  pk_token :: string
  pk_confirmable :: bool

text \<open>
  A request as the handler reads it: \<open>url\<close> is \<^verbatim>\<open>req.url\<close> (the transport gives
  the path and the query, with no scheme and no host), \<open>content_format\<close> and
  \<open>observe\<close> are the two headers (\<open>None\<close> for \<^verbatim>\<open>undefined\<close>), \<open>payload\<close> is
  \<^verbatim>\<open>req.payload\<close>
  (\<open>None\<close> for a missing one; a buffer is truthy even when it is empty),
  \<open>req_token\<close> and \<open>req_confirmable\<close> are the fields of \<^verbatim>\<open>res._request\<close>, and
  \<open>res_packet\<close> is \<^verbatim>\<open>res._packet\<close> as the transport made it.
\<close>

record request =
  req_method :: string
  url :: string
  content_format :: "string option"
  observe :: "int option"
  payload :: "string option"
  req_token :: string
  req_confirmable :: bool
  res_packet :: packet

text \<open>
  Every call the server makes on its registry, on the response, on the timer and on
  the thing, in the order it makes them. \<open>OnFinishLog\<close> is the registration of the
  \<^verbatim>\<open>finish\<close> listener that logs the reply, \<open>OnFinish\<close> the registration of a
  \<^verbatim>\<open>finish\<close> listener of an observation or a subscription.
\<close>

datatype effect =
    OnFinishLog
  | ThingsKeys
  | ThingsGet "string option"
  | SetOption string string
  | SetCode string
  | Write string
  | End "string option"
  | OnFinish
  | Send packet
  | SetInterval
  | ClearInterval
  | CallReadProperty string
  | CallWriteProperty string jsval
  | CallInvokeAction string jsval
  | CallSubscribeEvent string
  | CallUnsubscribeEvent string

text \<open>What stays alive when the handler has returned.\<close>

datatype live =
    PollObservation thing string property
  | PushSubscription thing string event packet

text \<open>
  How a call of the handler ends: it returns, or it throws. The handler catches none
  of the two errors: the \<^verbatim>\<open>TypeError\<close> of \<^verbatim>\<open>new URL\<close> and the \<^verbatim>\<open>URIError\<close>
  of \<^verbatim>\<open>decodeURI\<close>.
\<close>

datatype js_error = InvalidURL | MalformedURI

datatype completion = Returned "live option" | Threw js_error

text \<open>\<^verbatim>\<open>res.code = code; res.end(body)\<close>.\<close>

definition respond :: "string \<Rightarrow> string \<Rightarrow> effect list" where
  "respond code body = [SetCode code, End (Some body)]"

subsection \<open>Path segments\<close>

text \<open>
  \<^verbatim>\<open>new URL(req.url).pathname\<close>. The handler gives the constructor no base, and
  without a base the constructor throws on an input that does not start with a scheme:
  the empty string, and every string that starts with a slash, which is what the
  transport supplies. For the other inputs the result is the platform's.
\<close>

definition new_URL_pathname :: "helpers \<Rightarrow> string \<Rightarrow> string option" where
  "new_URL_pathname h s =
     (case s of
        [] \<Rightarrow> None
      | ch # _ \<Rightarrow> if ch = CHR ''/'' then None else URL_pathname h s)"

text \<open>\<^verbatim>\<open>pathname.split("/")\<close>.\<close>

fun split_slash :: "string \<Rightarrow> string list" where
  "split_slash [] = [[]]"
| "split_slash (c # cs) =
     (if c = CHR ''/'' then [] # split_slash cs
      else (case split_slash cs of
              [] \<Rightarrow> [[c]]
            | s # ss \<Rightarrow> (c # s) # ss))"

text \<open>\<^verbatim>\<open>segments[i]\<close>: \<open>None\<close> is \<^verbatim>\<open>undefined\<close>, past the end of the array.\<close>

definition segment :: "string list \<Rightarrow> nat \<Rightarrow> string option" where
  "segment segments i = (if i < length segments then Some (segments ! i) else None)"

text \<open>An object indexed by \<^verbatim>\<open>undefined\<close> is indexed by the string \<^verbatim>\<open>"undefined"\<close>.\<close>

definition js_key :: "string option \<Rightarrow> string" where
  "js_key s = (case s of None \<Rightarrow> ''undefined'' | Some k \<Rightarrow> k)"

text \<open>\<^verbatim>\<open>this.things.get(segments[1])\<close>: no key of the map is \<^verbatim>\<open>undefined\<close>.\<close>

definition things_get :: "(string \<times> thing) list \<Rightarrow> string option \<Rightarrow> thing option" where
  "things_get m k = (case k of None \<Rightarrow> None | Some name \<Rightarrow> map_of m name)"

subsection \<open>The admission check on the content type\<close>

text \<open>
  The first block of the handler. \<open>None\<close>: the request is refused with 4.15;
  \<open>Some ct\<close>: routing goes on with \<open>ct\<close> as \<^verbatim>\<open>contentType\<close>.
\<close>

definition admission :: "codec \<Rightarrow> request \<Rightarrow> string option option" where
  "admission c req =
     (if req_method req = ''PUT'' \<or> req_method req = ''POST''
      then
        if \<not> truthy_str (content_format req) \<and> payload req \<noteq> None
        then Some (Some (DEFAULT c))
        else if getMediaType c (content_format req) \<notin> set (getSupportedMediaTypes c)
        then None
        else Some (content_format req)
      else Some (content_format req))"

subsection \<open>The resources\<close>

definition listing :: "helpers \<Rightarrow> server \<Rightarrow> string list" where
  "listing h srv =
     concat (map (\<lambda>address.
               map (\<lambda>name. scheme @ ''://'' @ toUriLiteral h address @ '':''
                             @ port_string h (getPort srv) @ ''/'' @ encodeURIComponent h name)
                 (things_keys (things srv)))
             (getAddresses h))"

definition handle_listing :: "helpers \<Rightarrow> codec \<Rightarrow> server \<Rightarrow> request \<Rightarrow> effect list" where
  "handle_listing h c srv req =
     (if req_method req = ''GET''
      then [SetOption ''Content-Format'' (DEFAULT c), SetCode ''2.05'']
           @ replicate (length (getAddresses h)) ThingsKeys
           @ [End (Some (stringify_list h (listing h srv)))]
      else respond ''4.05'' ''Method Not Allowed'')"

definition handle_root :: "helpers \<Rightarrow> codec \<Rightarrow> thing \<Rightarrow> request \<Rightarrow> effect list" where
  "handle_root h c t req =
     (if req_method req = ''GET''
      then [SetOption ''Content-Format'' (TD c), SetCode ''2.05'', End (Some (stringify_td h t))]
      else respond ''4.05'' ''Method Not Allowed'')"

text \<open>
  What the \<^verbatim>\<open>then\<close> and \<^verbatim>\<open>catch\<close> callbacks of a one-shot read do once the promise
  has settled. An error thrown by the conversion inside \<^verbatim>\<open>then\<close> reaches the same
  \<^verbatim>\<open>catch\<close>.
\<close>

definition read_settled ::
  "helpers \<Rightarrow> codec \<Rightarrow> thing \<Rightarrow> string \<Rightarrow> property \<Rightarrow> jsval settled \<Rightarrow> effect list" where
  "read_settled h c t name p outcome =
     (case outcome of
        Resolved v \<Rightarrow>
          (case valueToContent c v (PropertySchema p) (getPropertyContentType h t name) of
             Inr content \<Rightarrow>
               [SetOption ''Content-Format'' (c_type content), SetCode ''2.05'',
                End (Some (c_body content))]
           | Inl msg \<Rightarrow> respond ''5.00'' msg)
      | Rejected msg \<Rightarrow> respond ''5.00'' msg)"

definition handle_property ::
  "helpers \<Rightarrow> codec \<Rightarrow> runtime \<Rightarrow> thing \<Rightarrow> string \<Rightarrow> property \<Rightarrow> request \<Rightarrow> string option
    \<Rightarrow> effect list \<times> live option" where
  "handle_property h c rt t name p req ctype =
     (if req_method req = ''GET''
      then
        if observe req = None
        then (CallReadProperty name # read_settled h c t name p (readProperty rt t name), None)
        else ([SetInterval], Some (PollObservation t name p))
      else if req_method req = ''PUT''
      then
        if \<not> readOnly p
        then
          (case contentToValue c ctype (payload req) (PropertySchema p) of
             Inl msg \<Rightarrow> (respond ''4.00'' ''Invalid Data'', None)
           | Inr v \<Rightarrow>
               (CallWriteProperty name v #
                  (case writeProperty rt t name v of
                     Resolved _ \<Rightarrow> respond ''2.04'' ''Changed''
                   | Rejected msg \<Rightarrow> respond ''5.00'' msg),
                None))
        else (respond ''4.00'' ''Property readOnly'', None)
      else (respond ''4.05'' ''Method Not Allowed'', None))"

definition handle_action ::
  "helpers \<Rightarrow> codec \<Rightarrow> runtime \<Rightarrow> thing \<Rightarrow> string \<Rightarrow> action \<Rightarrow> request \<Rightarrow> string option
    \<Rightarrow> effect list" where
  "handle_action h c rt t name a req ctype =
     (if req_method req = ''POST''
      then
        (case contentToValue c ctype (payload req) (ActionInput a) of
           Inl msg \<Rightarrow> respond ''4.00'' ''Invalid Input Data''
         | Inr input \<Rightarrow>
             CallInvokeAction name input #
               (case invokeAction rt t name input of
                  Resolved output \<Rightarrow>
                    if truthy output
                    then
                      (case valueToContent c output (ActionOutput a)
                              (getActionContentType h t name) of
                         Inr content \<Rightarrow>
                           [SetOption ''Content-Format'' (c_type content), SetCode ''2.05'',
                            End (Some (c_body content))]
                       | Inl msg \<Rightarrow> respond ''5.00'' msg)
                    else [SetCode ''2.04'', End None]
                | Rejected msg \<Rightarrow> respond ''5.00'' msg))
      else respond ''4.05'' ''Method Not Allowed'')"

text \<open>
  The work-around at the start of an event subscription: the frame handed to
  \<^verbatim>\<open>res._send\<close>, and \<^verbatim>\<open>res._packet\<close> after the two assignments that follow the
  send. \<^verbatim>\<open>packet\<close> and \<^verbatim>\<open>res._packet\<close> are one object, so the assignments before
  the send stay in force apart from the token.
\<close>

definition ack_frame :: "request \<Rightarrow> packet" where
  "ack_frame req =
     (res_packet req)\<lparr>pk_code := ''0.00'', pk_payload := [], pk_reset := False,
                       pk_ack := True, pk_token := []\<rparr>"

definition packet_after_ack :: "request \<Rightarrow> packet" where
  "packet_after_ack req =
     (ack_frame req)\<lparr>pk_confirmable := req_confirmable req, pk_token := req_token req\<rparr>"

definition handle_event ::
  "thing \<Rightarrow> string \<Rightarrow> event \<Rightarrow> request \<Rightarrow> effect list \<times> live option" where
  "handle_event t name e req =
     (if req_method req = ''GET''
      then
        if observe req = Some 0
        then ([Send (ack_frame req), CallSubscribeEvent name, OnFinish],
              Some (PushSubscription t name e (packet_after_ack req)))
        else if (case observe req of Some n \<Rightarrow> n > 0 | None \<Rightarrow> False)
        then (respond ''5.01'' ''node-coap issue: no GET cancellation, send RST'', None)
        else (respond ''4.00'' ''No Observe Option'', None)
      else (respond ''4.05'' ''Method Not Allowed'', None))"

subsection \<open>Routing\<close>

definition not_found :: "effect list \<times> live option" where
  "not_found = (respond ''4.04'' ''Not Found'', None)"

text \<open>
  The part of the handler below the computation of \<^verbatim>\<open>segments\<close>. The lookup in the
  registry is recorded before what the branch does; a resource that does not exist
  falls through to the last two lines of the handler.
\<close>

definition route ::
  "helpers \<Rightarrow> codec \<Rightarrow> runtime \<Rightarrow> server \<Rightarrow> request \<Rightarrow> string list \<Rightarrow> string option
    \<Rightarrow> effect list \<times> live option" where
  "route h c rt srv req segments ctype =
     (if segment segments 1 = Some []
      then (handle_listing h c srv req, None)
      else
        (case things_get (things srv) (segment segments 1) of
           None \<Rightarrow> (ThingsGet (segment segments 1) # fst not_found, None)
         | Some t \<Rightarrow>
             (case
                (if length segments = 2 \<or> segment segments 2 = Some []
                 then (handle_root h c t req, None)
                 else if segment segments 2 = Some PROPERTY_DIR
                 then
                   (case map_of (properties t) (js_key (segment segments 3)) of
                      Some p \<Rightarrow>
                        handle_property h c rt t (js_key (segment segments 3)) p req ctype
                    | None \<Rightarrow> not_found)
                 else if segment segments 2 = Some ACTION_DIR
                 then
                   (case map_of (actions t) (js_key (segment segments 3)) of
                      Some a \<Rightarrow>
                        (handle_action h c rt t (js_key (segment segments 3)) a req ctype,
                         None)
                    | None \<Rightarrow> not_found)
                 else if segment segments 2 = Some EVENT_DIR
                 then
                   (case map_of (events t) (js_key (segment segments 3)) of
                      Some e \<Rightarrow> handle_event t (js_key (segment segments 3)) e req
                    | None \<Rightarrow> not_found)
                 else not_found)
              of (effects, l) \<Rightarrow> (ThingsGet (segment segments 1) # effects, l))))"

text \<open>
  The handler, in the order of its statements: the logging \<^verbatim>\<open>finish\<close> listener,
  \<^verbatim>\<open>new URL(req.url)\<close>, the admission check, \<^verbatim>\<open>decodeURI\<close> and the split of
  the path, routing. It returns the calls made and how it ended.
\<close>

definition handleRequest ::
  "helpers \<Rightarrow> codec \<Rightarrow> runtime \<Rightarrow> server \<Rightarrow> request \<Rightarrow> effect list \<times> completion" where
  "handleRequest h c rt srv req =
     (case new_URL_pathname h (url req) of
        None \<Rightarrow> ([OnFinishLog], Threw InvalidURL)
      | Some pathname \<Rightarrow>
          (case admission c req of
             None \<Rightarrow>
               (OnFinishLog # respond ''4.15'' ''Unsupported Media Type'', Returned None)
           | Some ctype \<Rightarrow>
               (case decodeURI h pathname of
                  None \<Rightarrow> ([OnFinishLog], Threw MalformedURI)
                | Some decoded \<Rightarrow>
                    (case route h c rt srv req (split_slash decoded) ctype of
                       (effects, l) \<Rightarrow> (OnFinishLog # effects, Returned l)))))"


section \<open>Observations\<close>

text \<open>
  The callbacks that a subscription leaves behind run one at a time on the event loop,
  each to its end. A subscription is therefore a state and a step function: an event
  is what the platform calls back (the timer, a promise that settles, the thing that
  emits, the \<^verbatim>\<open>finish\<close> event of the response), and the step is the body of the
  callback. Each state carries the log of the calls made so far. When the response
  emits \<^verbatim>\<open>finish\<close> is decided by the platform (it does once the response has been
  ended, and when the peer goes away): the model takes the event whenever it comes.
\<close>

text \<open>
  The bodies handed to \<^verbatim>\<open>res.write\<close> before the first \<^verbatim>\<open>res.end\<close>: a response
  that has been ended takes no further notification.
\<close>

fun delivered :: "effect list \<Rightarrow> string list" where
  "delivered [] = []"
| "delivered (Write body # es) = body # delivered es"
| "delivered (End _ # es) = []"
| "delivered (_ # es) = delivered es"

text \<open>All the bodies handed to \<^verbatim>\<open>res.write\<close>, whether or not the response was open.\<close>

fun writes :: "effect list \<Rightarrow> string list" where
  "writes [] = []"
| "writes (Write body # es) = body # writes es"
| "writes (_ # es) = writes es"

subsection \<open>Property observation: the interval callback\<close>

text \<open>
  \<open>timer_on\<close>: \<^verbatim>\<open>oInterval\<close> has not been cleared. \<open>pending\<close>: the calls of
  \<^verbatim>\<open>readProperty\<close> whose promise has not settled. \<open>finish_listeners\<close>: how many
  times the \<^verbatim>\<open>then\<close> callback has registered its \<^verbatim>\<open>finish\<close> listener.
  \<open>ended\<close>: \<^verbatim>\<open>res.end\<close> has been called. \<open>in_flight\<close> belongs to the transport:
  the notifications written to an open response that the transport has not yet
  reported as transmitted. The server keeps no such count and reads none.
\<close>

record poll =
  timer_on :: bool
  pending :: nat
  finish_listeners :: nat
  ended :: bool
  in_flight :: nat
  poll_log :: "effect list"

text \<open>
  \<open>Tick\<close>: the interval fires. \<open>ReadSettled\<close>: the promise of one pending read
  settles. \<open>Finish\<close>: the response emits \<^verbatim>\<open>finish\<close>. \<open>Flushed\<close>: the transport has
  transmitted one notification; the server listens to no such signal.
\<close>

datatype poll_event = Tick | ReadSettled "jsval settled" | Finish | Flushed

definition poll_init :: poll where
  "poll_init =
     \<lparr>timer_on = True, pending = 0, finish_listeners = 0, ended = False, in_flight = 0,
      poll_log = []\<rparr>"

text \<open>The \<^verbatim>\<open>catch\<close> callback of the interval's read.\<close>

definition poll_catch :: "string \<Rightarrow> poll \<Rightarrow> poll" where
  "poll_catch msg s = s\<lparr>ended := True, poll_log := poll_log s @ respond ''5.00'' msg\<rparr>"

text \<open>
  The \<^verbatim>\<open>then\<close> callback of the interval's read. It registers one more \<^verbatim>\<open>finish\<close>
  listener every time it runs.
\<close>

definition poll_then ::
  "helpers \<Rightarrow> codec \<Rightarrow> thing \<Rightarrow> string \<Rightarrow> property \<Rightarrow> jsval \<Rightarrow> poll \<Rightarrow> poll" where
  "poll_then h c t name p v s =
     (case valueToContent c v (PropertySchema p) (getPropertyContentType h t name) of
        Inr content \<Rightarrow>
          s\<lparr>finish_listeners := Suc (finish_listeners s),
            in_flight := (if ended s then in_flight s else Suc (in_flight s)),
            poll_log := poll_log s @
              [SetOption ''Content-Format'' (c_type content), SetCode ''2.05'',
               Write (c_body content), OnFinish]\<rparr>
      | Inl msg \<Rightarrow> poll_catch msg s)"

text \<open>
  On \<^verbatim>\<open>finish\<close> every registered listener runs \<^verbatim>\<open>clearInterval(oInterval)\<close> and
  \<^verbatim>\<open>res.end()\<close>.
\<close>

definition poll_finish :: "poll \<Rightarrow> poll" where
  "poll_finish s =
     s\<lparr>timer_on := (timer_on s \<and> finish_listeners s = 0),
       ended := (ended s \<or> 0 < finish_listeners s),
       poll_log := poll_log s @ concat (replicate (finish_listeners s) [ClearInterval, End None])\<rparr>"

fun poll_step ::
  "helpers \<Rightarrow> codec \<Rightarrow> thing \<Rightarrow> string \<Rightarrow> property \<Rightarrow> poll_event \<Rightarrow> poll \<Rightarrow> poll" where
  "poll_step h c t name p Tick s =
     (if timer_on s
      then s\<lparr>pending := Suc (pending s), poll_log := poll_log s @ [CallReadProperty name]\<rparr>
      else s)"
| "poll_step h c t name p (ReadSettled outcome) s =
     (if pending s = 0 then s
      else
        (case outcome of
           Resolved v \<Rightarrow> poll_then h c t name p v (s\<lparr>pending := pending s - 1\<rparr>)
         | Rejected msg \<Rightarrow> poll_catch msg (s\<lparr>pending := pending s - 1\<rparr>)))"
| "poll_step h c t name p Finish s = poll_finish s"
| "poll_step h c t name p Flushed s = s\<lparr>in_flight := in_flight s - 1\<rparr>"

definition poll_run ::
  "helpers \<Rightarrow> codec \<Rightarrow> thing \<Rightarrow> string \<Rightarrow> property \<Rightarrow> poll_event list \<Rightarrow> poll \<Rightarrow> poll" where
  "poll_run h c t name p evs s = fold (poll_step h c t name p) evs s"

text \<open>
  The message with which a read fails on a tick: the promise is rejected, or the
  value it resolves with cannot be converted. \<open>None\<close>: the read succeeds.
\<close>

definition read_failure ::
  "helpers \<Rightarrow> codec \<Rightarrow> thing \<Rightarrow> string \<Rightarrow> property \<Rightarrow> jsval settled \<Rightarrow> string option" where
  "read_failure h c t name p outcome =
     (case outcome of
        Rejected msg \<Rightarrow> Some msg
      | Resolved v \<Rightarrow>
          (case valueToContent c v (PropertySchema p) (getPropertyContentType h t name) of
             Inl msg \<Rightarrow> Some msg
           | Inr _ \<Rightarrow> None))"

subsection \<open>Event subscription: the listener\<close>







section \<open>Requests that address a resource\<close>

text \<open>
  The segments of the path as the handler computes them, when neither
  \<^verbatim>\<open>new URL\<close> nor \<^verbatim>\<open>decodeURI\<close> throws.
\<close>

definition segments_of :: "helpers \<Rightarrow> request \<Rightarrow> string list option" where
  "segments_of h req =
     (case new_URL_pathname h (url req) of
        None \<Rightarrow> None
      | Some pathname \<Rightarrow>
          (case decodeURI h pathname of
             None \<Rightarrow> None
           | Some decoded \<Rightarrow> Some (split_slash decoded)))"



section \<open>An example server\<close>

text \<open>
  A lamp with a writable, observable property, a read-only property, an action and an
  event; a codec that knows four media types (not \<open>application/cbor\<close>) and converts
  strings only; helpers whose string functions are the identity, which is what they
  are on lower-case words, and whose URL parser knows the URLs of one host.
\<close>

fun strip_prefix :: "string \<Rightarrow> string \<Rightarrow> string option" where
  "strip_prefix [] s = Some s"
| "strip_prefix (p # ps) [] = None"
| "strip_prefix (p # ps) (ch # s) = (if p = ch then strip_prefix ps s else None)"

definition lamp_on :: property where
  "lamp_on = \<lparr>readOnly = False, writeOnly = False, observable = True, p_forms = []\<rparr>"

definition lamp_serial :: property where
  "lamp_serial = \<lparr>readOnly = True, writeOnly = False, observable = False, p_forms = []\<rparr>"

definition lamp_toggle :: action where
  "lamp_toggle = \<lparr>a_forms = []\<rparr>"

definition lamp_overheated :: event where
  "lamp_overheated = \<lparr>e_forms = []\<rparr>"

definition lamp :: thing where
  "lamp =
     \<lparr>title = ''lamp'', thing_id = ''urn:dev:lamp'',
      properties = [(''on'', lamp_on), (''serial'', lamp_serial)],
      actions = [(''toggle'', lamp_toggle)],
      events = [(''overheated'', lamp_overheated)]\<rparr>"

definition fan :: thing where
  "fan =
     \<lparr>title = ''fan'', thing_id = ''urn:dev:fan'', properties = [], actions = [], events = []\<rparr>"

definition ex_helpers :: helpers where
  "ex_helpers =
     \<lparr>slugify = (\<lambda>s. s),
      generateUniqueName = (\<lambda>n. n @ ''_2''),
      getAddresses = [''192.0.2.1''],
      toUriLiteral = (\<lambda>a. a),
      encodeURIComponent = (\<lambda>s. s),
      port_string = (\<lambda>p. if p = 5683 then ''5683'' else ''-1''),
      stringify_list = concat,
      stringify_td = thing_id,
      updatePropertyFormWithTemplate = (\<lambda>f n. f),
      updateActionFormWithTemplate = (\<lambda>f n. f),
      updateEventFormWithTemplate = (\<lambda>f n. f),
      getPropertyContentType = (\<lambda>t n. ''application/json''),
      getActionContentType = (\<lambda>t n. ''application/json''),
      getEventContentType = (\<lambda>t n. ''application/json''),
      URL_pathname = strip_prefix ''coap://host'',
      decodeURI = Some\<rparr>"

definition ex_codec :: codec where
  "ex_codec =
     \<lparr>DEFAULT = ''application/json'',
      TD = ''application/td+json'',
      getOfferedMediaTypes = [''application/json''],
      getSupportedMediaTypes =
        [''application/json'', ''text/plain'', ''application/xml'', ''application/octet-stream''],
      getMediaType = (\<lambda>ct. case ct of None \<Rightarrow> [] | Some s \<Rightarrow> takeWhile (\<lambda>ch. ch \<noteq> CHR '';'') s),
      contentToValue =
        (\<lambda>ct body sch. case body of None \<Rightarrow> Inl ''no body'' | Some b \<Rightarrow> Inr (JStr b)),
      valueToContent =
        (\<lambda>v sch ct. case v of
                       JStr s \<Rightarrow> Inr \<lparr>c_type = ct, c_body = s\<rparr>
                     | _ \<Rightarrow> Inl ''not a string'')\<rparr>"

definition ex_runtime :: runtime where
  "ex_runtime =
     \<lparr>readProperty = (\<lambda>t n. Resolved (JStr ''true'')),
      writeProperty = (\<lambda>t n v. Resolved ()),
      invokeAction = (\<lambda>t n v. Resolved JUndefined)\<rparr>"

definition ex_server :: server where
  "ex_server = \<lparr>sock = Some 5683, things = [(''lamp'', lamp), (''fan'', fan)]\<rparr>"

definition ex_packet :: packet where
  "ex_packet =
     \<lparr>pk_messageId = 7, pk_code = ''2.05'', pk_payload = [], pk_reset = False, pk_ack = False,
      pk_token = ''tk'', pk_confirmable = False\<rparr>"

text \<open>A request with no headers and an empty buffer as payload.\<close>

definition ex_request :: "string \<Rightarrow> string \<Rightarrow> request" where
  "ex_request m u =
     \<lparr>req_method = m, url = u, content_format = None, observe = None,
      payload = Some [], req_token = ''tk'', req_confirmable = True, res_packet = ex_packet\<rparr>"






section \<open>Properties of the registry\<close>

text \<open>
  \<^verbatim>\<open>expose\<close> keeps every path once in the registry, as \<^verbatim>\<open>destroy\<close> does (see
  below): \<open>wf_things\<close> holds of every registry the server can reach from the empty
  one.
\<close>

lemma things_set_keys:
  "set (things_keys (things_set k v m)) = insert k (set (things_keys m))"
  by (induction m) (auto simp: things_keys_def)

lemma wf_things_set: "wf_things m \<Longrightarrow> wf_things (things_set k v m)"
proof (induction m)
  case Nil
  show ?case by (simp add: wf_things_def)
next
  case (Cons e m)
  then have wf: "wf_things (things_set k v m)" and new: "fst e \<notin> set (things_keys m)"
    by (simp_all add: wf_things_def things_keys_def)
  show ?case
  proof (cases "fst e = k")
    case True
    with Cons.prems show ?thesis by (simp add: wf_things_def)
  next
    case False
    with wf new things_set_keys [of k v m] show ?thesis
      by (simp add: wf_things_def things_keys_def)
  qed
qed

lemma expose_keeps_wf:
  "wf_things (things srv) \<Longrightarrow> wf_things (things (fst (expose h c srv t)))"
  by (simp add: expose_def Let_def wf_things_set)


lemma wf_things_delete: "wf_things m \<Longrightarrow> wf_things (things_delete k m)"
  by (simp add: wf_things_def things_delete_def distinct_map_filter)

lemma map_of_wf_iff:
  "wf_things m \<Longrightarrow> (map_of m k = Some t) = ((k, t) \<in> set m)"
  by (simp add: wf_things_def)

lemma destroy_loop_map:
  "wf_things m \<Longrightarrow>
     fst (destroy_loop thingId names (m, r)) =
       filter (\<lambda>e. \<not> (fst e \<in> set names \<and> thing_id (snd e) = thingId)) m"
proof (induction names arbitrary: m r)
  case Nil
  then show ?case by simp
next
  case (Cons name names)
  show ?case
  proof (cases "map_of m name")
    case None
    then have "\<forall>e \<in> set m. fst e \<noteq> name"
      by (metis map_of_eq_None_iff image_eqI)
    then have "filter (\<lambda>e. \<not> (fst e \<in> set (name # names) \<and> thing_id (snd e) = thingId)) m
        = filter (\<lambda>e. \<not> (fst e \<in> set names \<and> thing_id (snd e) = thingId)) m"
      by (intro filter_cong) auto
    with None Cons show ?thesis by simp
  next
    case (Some t)
    then have mem: "(name, t) \<in> set m" by (rule map_of_SomeD)
    have uniq: "\<forall>e \<in> set m. fst e = name \<longrightarrow> snd e = t"
      using Cons.prems Some by (metis map_of_wf_iff option.inject prod.collapse)
    show ?thesis
    proof (cases "thing_id t = thingId")
      case True
      have "filter (\<lambda>e. \<not> (fst e \<in> set names \<and> thing_id (snd e) = thingId))
              (things_delete name m)
          = filter (\<lambda>e. \<not> (fst e \<in> set (name # names) \<and> thing_id (snd e) = thingId)) m"
        unfolding things_delete_def filter_filter
        using uniq True by (intro filter_cong) auto
      with Some True Cons.IH [OF wf_things_delete [OF Cons.prems]] show ?thesis by simp
    next
      case False
      have "filter (\<lambda>e. \<not> (fst e \<in> set (name # names) \<and> thing_id (snd e) = thingId)) m
          = filter (\<lambda>e. \<not> (fst e \<in> set names \<and> thing_id (snd e) = thingId)) m"
        using uniq False by (intro filter_cong) auto
      with Some False Cons show ?thesis by simp
    qed
  qed
qed

lemma destroy_loop_removed:
  "wf_things m \<Longrightarrow>
     (snd (destroy_loop thingId names (m, r)) \<noteq> None) =
       (r \<noteq> None \<or> (\<exists>e \<in> set m. fst e \<in> set names \<and> thing_id (snd e) = thingId))"
proof (induction names arbitrary: m r)
  case Nil
  then show ?case by simp
next
  case (Cons name names)
  show ?case
  proof (cases "map_of m name")
    case None
    then have "\<forall>e \<in> set m. fst e \<noteq> name"
      by (metis map_of_eq_None_iff image_eqI)
    with None Cons show ?thesis by auto
  next
    case (Some t)
    then have mem: "(name, t) \<in> set m" by (rule map_of_SomeD)
    have uniq: "\<forall>e \<in> set m. fst e = name \<longrightarrow> snd e = t"
      using Cons.prems Some by (metis map_of_wf_iff option.inject prod.collapse)
    show ?thesis
    proof (cases "thing_id t = thingId")
      case True
      with Some Cons.IH [OF wf_things_delete [OF Cons.prems]] mem show ?thesis
        by force
    next
      case False
      with Some Cons uniq show ?thesis by auto
    qed
  qed
qed

lemma destroy_eq:
  assumes "wf_things (things srv)"
  shows "destroy srv thingId =
           (srv\<lparr>things := filter (\<lambda>e. thing_id (snd e) \<noteq> thingId) (things srv)\<rparr>,
            Resolved (\<exists>e \<in> set (things srv). thing_id (snd e) = thingId))"
proof -
  obtain m' r' where
    eq: "destroy_loop thingId (things_keys (things srv)) (things srv, None) = (m', r')"
    by (cases "destroy_loop thingId (things_keys (things srv)) (things srv, None)")
  have "m' = filter (\<lambda>e. \<not> (fst e \<in> set (things_keys (things srv)) \<and> thing_id (snd e) = thingId))
               (things srv)"
    using destroy_loop_map [OF assms, of thingId "things_keys (things srv)" None] eq by simp
  also have "\<dots> = filter (\<lambda>e. thing_id (snd e) \<noteq> thingId) (things srv)"
    by (intro filter_cong) (auto simp: things_keys_def)
  finally have m: "m' = filter (\<lambda>e. thing_id (snd e) \<noteq> thingId) (things srv)" .
  have r: "(r' \<noteq> None) = (\<exists>e \<in> set (things srv). thing_id (snd e) = thingId)"
    using destroy_loop_removed [OF assms, of thingId "things_keys (things srv)" None] eq
    by (auto simp: things_keys_def)
  show ?thesis
    using m r by (simp add: destroy_def eq)
qed

text \<open>
  Claim C8. In a registry that holds every path once, \<^verbatim>\<open>destroy(thingId)\<close> removes
  exactly the entries whose thing has that id and resolves with true exactly when
  there was one; the path of a removed entry is no key of the registry afterwards, so
  no listing names it. When no registered thing has the id, the promise resolves with
  false and the server is unchanged. A second call with the same id resolves with
  false. The registry still holds every path once.
\<close>

theorem destroy_removes_exactly_matching:
  assumes "wf_things (things srv)"
  shows "destroy srv thingId =
           (srv\<lparr>things := filter (\<lambda>e. thing_id (snd e) \<noteq> thingId) (things srv)\<rparr>,
            Resolved (\<exists>e \<in> set (things srv). thing_id (snd e) = thingId))
       \<and> (\<forall>e \<in> set (things srv). thing_id (snd e) = thingId \<longrightarrow>
            fst e \<notin> set (things_keys (things (fst (destroy srv thingId)))))
       \<and> ((\<forall>e \<in> set (things srv). thing_id (snd e) \<noteq> thingId) \<longrightarrow>
            destroy srv thingId = (srv, Resolved False))
       \<and> snd (destroy (fst (destroy srv thingId)) thingId) = Resolved False
       \<and> wf_things (things (fst (destroy srv thingId)))"
proof -
  let ?keep = "filter (\<lambda>e. thing_id (snd e) \<noteq> thingId) (things srv)"
  note first = destroy_eq [OF assms, of thingId]
  have wf: "wf_things ?keep"
    using assms by (simp add: wf_things_def distinct_map_filter)
  have gone: "\<forall>e \<in> set (things srv). thing_id (snd e) = thingId \<longrightarrow>
      fst e \<notin> set (things_keys ?keep)"
  proof (intro ballI impI notI)
    fix e
    assume e: "e \<in> set (things srv)" and hit: "thing_id (snd e) = thingId"
      and key: "fst e \<in> set (things_keys ?keep)"
    from key obtain e' where e': "e' \<in> set (things srv)" "thing_id (snd e') \<noteq> thingId"
      "fst e' = fst e"
      by (auto simp: things_keys_def)
    from assms e e' have "e' = e"
      unfolding wf_things_def by (metis eq_key_imp_eq_value prod.collapse)
    with hit e' show False by simp
  qed
  have unknown: "(\<forall>e \<in> set (things srv). thing_id (snd e) \<noteq> thingId) \<longrightarrow>
            destroy srv thingId = (srv, Resolved False)"
  proof
    assume none: "\<forall>e \<in> set (things srv). thing_id (snd e) \<noteq> thingId"
    then have "?keep = things srv" by simp
    with none first show "destroy srv thingId = (srv, Resolved False)" by simp
  qed
  have second: "snd (destroy (fst (destroy srv thingId)) thingId) = Resolved False"
    using destroy_eq [of "srv\<lparr>things := ?keep\<rparr>" thingId] wf first by simp
  show ?thesis
    using first gone unknown second wf by simp
qed

theorem destroy_removes_exactly_matching_witness:
  "wf_things (things ex_server)
   \<and> destroy ex_server ''urn:dev:lamp'' = (\<lparr>sock = Some 5683, things = [(''fan'', fan)]\<rparr>, Resolved True)
   \<and> ''lamp'' \<notin> set (things_keys (things (fst (destroy ex_server ''urn:dev:lamp''))))
   \<and> snd (destroy (fst (destroy ex_server ''urn:dev:lamp'')) ''urn:dev:lamp'') = Resolved False
   \<and> destroy ex_server ''urn:dev:none'' = (ex_server, Resolved False)"
proof -
  have wf: "wf_things (things ex_server)"
    by (simp add: wf_things_def ex_server_def)
  note hit = destroy_removes_exactly_matching [OF wf, of "''urn:dev:lamp''"]
  note miss = destroy_removes_exactly_matching [OF wf, of "''urn:dev:none''"]
  have a: "destroy ex_server ''urn:dev:lamp''
      = (\<lparr>sock = Some 5683, things = [(''fan'', fan)]\<rparr>, Resolved True)"
    using hit [THEN conjunct1] by (simp add: ex_server_def lamp_def fan_def)
  have b: "''lamp'' \<notin> set (things_keys (things (fst (destroy ex_server ''urn:dev:lamp''))))"
    by (simp add: a things_keys_def)
  have c: "snd (destroy (fst (destroy ex_server ''urn:dev:lamp'')) ''urn:dev:lamp'') = Resolved False"
    using hit by blast
  have d: "destroy ex_server ''urn:dev:none'' = (ex_server, Resolved False)"
    using miss [THEN conjunct2, THEN conjunct2, THEN conjunct1]
    by (simp add: ex_server_def lamp_def fan_def)
  show ?thesis using wf a b c d by blast
qed

section \<open>Properties of the request handler\<close>

lemma handler_throws_without_scheme:
  "url req = CHR ''/'' # rest \<Longrightarrow> handleRequest h c rt srv req = ([OnFinishLog], Threw InvalidURL)"
  by (simp add: handleRequest_def new_URL_pathname_def)


lemma segments_parsed:
  "segments_of h req = Some segments \<Longrightarrow>
     \<exists>pathname decoded. new_URL_pathname h (url req) = Some pathname
       \<and> decodeURI h pathname = Some decoded \<and> segments = split_slash decoded"
  by (auto simp: segments_of_def split: option.splits)


lemma handle_refused:
  assumes "segments_of h req = Some segments" and "admission c req = None"
  shows "handleRequest h c rt srv req =
           ([OnFinishLog, SetCode ''4.15'', End (Some ''Unsupported Media Type'')], Returned None)"
  using segments_parsed [OF assms(1)] assms(2)
  by (auto simp: handleRequest_def respond_def)






lemma ex_segments:
  "url req = ''coap://host'' @ path \<Longrightarrow> path \<noteq> [] \<Longrightarrow>
     segments_of ex_helpers req = Some (split_slash path)"
  by (cases path) (simp_all add: segments_of_def new_URL_pathname_def ex_helpers_def)



text \<open>
  Claim C4 on the code. The handler calls \<^verbatim>\<open>new URL(req.url)\<close> without a base before
  the admission check. For the URL that the transport supplies, a path that starts
  with a slash, the constructor throws: a PUT with the unsupported content type
  \<open>application/cbor\<close> ends in that error with no status set and no answer. The same
  request with an absolute URL is answered 4.15 by the admission check, before any
  access to the registry or to the thing.
\<close>

theorem unsupported_content_type_on_transport_url:
  "handleRequest ex_helpers ex_codec ex_runtime ex_server
     ((ex_request ''PUT'' ''/lamp/properties/on'')\<lparr>content_format := Some ''application/cbor''\<rparr>)
     = ([OnFinishLog], Threw InvalidURL)
   \<and> handleRequest ex_helpers ex_codec ex_runtime ex_server
       ((ex_request ''PUT'' ''coap://host/lamp/properties/on'')
          \<lparr>content_format := Some ''application/cbor''\<rparr>)
     = ([OnFinishLog, SetCode ''4.15'', End (Some ''Unsupported Media Type'')], Returned None)"
proof -
  let ?abs = "(ex_request ''PUT'' ''coap://host/lamp/properties/on'')
      \<lparr>content_format := Some ''application/cbor''\<rparr>"
  have 1: "handleRequest ex_helpers ex_codec ex_runtime ex_server
     ((ex_request ''PUT'' ''/lamp/properties/on'')\<lparr>content_format := Some ''application/cbor''\<rparr>)
     = ([OnFinishLog], Threw InvalidURL)"
    by (rule handler_throws_without_scheme) (simp add: ex_request_def)
  have seg: "segments_of ex_helpers ?abs = Some (split_slash ''/lamp/properties/on'')"
    by (rule ex_segments) (simp_all add: ex_request_def)
  have adm: "admission ex_codec ?abs = None"
    by (simp add: admission_def ex_request_def ex_codec_def)
  show ?thesis
    using 1 handle_refused [OF seg adm] by simp
qed

text \<open>
  The theorems that follow are about requests whose URL the handler parses. For a URL
  that starts with a slash, \<open>handler_throws_without_scheme\<close> says all that the
  handler does.
\<close>















section \<open>Properties of the observations\<close>

lemma writes_append: "writes (xs @ ys) = writes xs @ writes ys"
  by (induction xs rule: writes.induct) auto

lemma poll_step_log:
  "\<exists>zs. poll_log (poll_step h c t n p ev s) = poll_log s @ zs"
  by (cases ev)
    (auto simp: poll_then_def poll_catch_def poll_finish_def split: settled.splits sum.splits)

lemma poll_run_log:
  "\<exists>zs. poll_log (poll_run h c t n p evs s) = poll_log s @ zs"
proof (induction evs arbitrary: s)
  case Nil
  show ?case by (simp add: poll_run_def)
next
  case (Cons ev evs)
  obtain zs where 1: "poll_log (poll_step h c t n p ev s) = poll_log s @ zs"
    using poll_step_log by blast
  obtain zs' where 2: "poll_log (poll_run h c t n p evs (poll_step h c t n p ev s))
      = poll_log (poll_step h c t n p ev s) @ zs'"
    using Cons.IH by blast
  show ?case
    using 1 2 by (simp add: poll_run_def)
qed

lemma poll_run_append:
  "poll_run h c t n p (evs @ evs') s = poll_run h c t n p evs' (poll_run h c t n p evs s)"
  by (simp add: poll_run_def)

lemma poll_round:
  assumes "timer_on s" and "\<not> ended s"
    and "valueToContent c v (PropertySchema p) (getPropertyContentType h t n) = Inr content"
  shows "poll_run h c t n p [Tick, ReadSettled (Resolved v)] s =
           s\<lparr>finish_listeners := Suc (finish_listeners s), in_flight := Suc (in_flight s),
             poll_log := poll_log s @
               [CallReadProperty n, SetOption ''Content-Format'' (c_type content),
                SetCode ''2.05'', Write (c_body content), OnFinish]\<rparr>"
  using assms by (simp add: poll_run_def poll_then_def)

lemma poll_rounds:
  assumes "timer_on s" and "\<not> ended s"
    and "valueToContent c v (PropertySchema p) (getPropertyContentType h t n) = Inr content"
  shows "poll_run h c t n p (concat (replicate k [Tick, ReadSettled (Resolved v)])) s =
           s\<lparr>finish_listeners := finish_listeners s + k, in_flight := in_flight s + k,
             poll_log := poll_log s @
               concat (replicate k
                 [CallReadProperty n, SetOption ''Content-Format'' (c_type content),
                  SetCode ''2.05'', Write (c_body content), OnFinish])\<rparr>"
  using assms(1,2)
proof (induction k arbitrary: s)
  case 0
  show ?case by (simp add: poll_run_def)
next
  case (Suc k)
  let ?s1 = "poll_run h c t n p [Tick, ReadSettled (Resolved v)] s"
  have s1: "?s1 = s\<lparr>finish_listeners := Suc (finish_listeners s), in_flight := Suc (in_flight s),
             poll_log := poll_log s @
               [CallReadProperty n, SetOption ''Content-Format'' (c_type content),
                SetCode ''2.05'', Write (c_body content), OnFinish]\<rparr>"
    using Suc.prems assms(3) by (rule poll_round)
  have on: "timer_on ?s1" and opn: "\<not> ended ?s1"
    using Suc.prems by (simp_all add: s1)
  have "poll_run h c t n p (concat (replicate (Suc k) [Tick, ReadSettled (Resolved v)])) s
      = poll_run h c t n p (concat (replicate k [Tick, ReadSettled (Resolved v)])) ?s1"
    by (simp only: replicate_Suc concat.simps poll_run_append)
  also have "\<dots> = ?s1\<lparr>finish_listeners := finish_listeners ?s1 + k,
             in_flight := in_flight ?s1 + k,
             poll_log := poll_log ?s1 @
               concat (replicate k
                 [CallReadProperty n, SetOption ''Content-Format'' (c_type content),
                  SetCode ''2.05'', Write (c_body content), OnFinish])\<rparr>"
    using on opn by (rule Suc.IH)
  finally show ?case
    by (simp add: s1)
qed

lemma poll_ticks:
  assumes "timer_on s"
  shows "poll_run h c t n p (replicate k Tick) s =
           s\<lparr>pending := pending s + k, poll_log := poll_log s @ replicate k (CallReadProperty n)\<rparr>"
  using assms
proof (induction k arbitrary: s)
  case 0
  show ?case by (simp add: poll_run_def)
next
  case (Suc k)
  let ?s1 = "s\<lparr>pending := Suc (pending s), poll_log := poll_log s @ [CallReadProperty n]\<rparr>"
  have "poll_run h c t n p (replicate (Suc k) Tick) s = poll_run h c t n p (replicate k Tick) ?s1"
    using Suc.prems by (simp add: poll_run_def)
  also have "\<dots> = ?s1\<lparr>pending := pending ?s1 + k,
      poll_log := poll_log ?s1 @ replicate k (CallReadProperty n)\<rparr>"
    using Suc.prems by (intro Suc.IH) simp
  finally show ?case
    by (simp add: replicate_append_same)
qed

lemma delivered_until_end:
  "delivered (xs @ SetCode code # End b # zs) = delivered xs"
  by (induction xs rule: delivered.induct) auto

lemma ex_serialize:
  "valueToContent ex_codec (JStr b) (PropertySchema lamp_on)
     (getPropertyContentType ex_helpers lamp ''on'') = Inr \<lparr>c_type = ''application/json'', c_body = b\<rparr>"
  by (simp add: ex_codec_def ex_helpers_def)

text \<open>
  Claim C1, amended. A running property observation has no gate on notifications in
  flight: every tick of the timer calls \<^verbatim>\<open>readProperty\<close>, whatever the number of
  reads still pending and of notifications not yet transmitted, and every read that
  resolves with a convertible value is written when it settles. So \<open>k\<close> ticks in a
  row leave \<open>k\<close> more reads pending, and \<open>k\<close> ticks, each followed by its read
  resolving, put \<open>k\<close> more notifications in flight on an open response when the
  transport completes none of them in between.
\<close>

theorem poll_never_skips_a_tick:
  assumes "timer_on s" and "\<not> ended s"
    and "valueToContent c v (PropertySchema p) (getPropertyContentType h t n) = Inr content"
  shows "poll_step h c t n p Tick s =
           s\<lparr>pending := Suc (pending s), poll_log := poll_log s @ [CallReadProperty n]\<rparr>
       \<and> poll_step h c t n p Tick (s\<lparr>in_flight := m\<rparr>) =
           (poll_step h c t n p Tick s)\<lparr>in_flight := m\<rparr>
       \<and> poll_run h c t n p (replicate k Tick) s =
           s\<lparr>pending := pending s + k,
             poll_log := poll_log s @ replicate k (CallReadProperty n)\<rparr>
       \<and> in_flight (poll_run h c t n p (concat (replicate k [Tick, ReadSettled (Resolved v)])) s)
           = in_flight s + k
       \<and> poll_log (poll_run h c t n p (concat (replicate k [Tick, ReadSettled (Resolved v)])) s)
           = poll_log s @
               concat (replicate k
                 [CallReadProperty n, SetOption ''Content-Format'' (c_type content),
                  SetCode ''2.05'', Write (c_body content), OnFinish])
       \<and> timer_on (poll_run h c t n p (concat (replicate k [Tick, ReadSettled (Resolved v)])) s)"
  using assms(1) by (simp add: poll_rounds [OF assms] poll_ticks [OF assms(1)])

theorem poll_never_skips_a_tick_witness:
  "timer_on poll_init \<and> \<not> ended poll_init
   \<and> in_flight (poll_run ex_helpers ex_codec lamp ''on'' lamp_on
        [Tick, ReadSettled (Resolved (JStr ''true'')), Tick, ReadSettled (Resolved (JStr ''true''))]
        poll_init) = 2
   \<and> poll_log (poll_run ex_helpers ex_codec lamp ''on'' lamp_on
        [Tick, ReadSettled (Resolved (JStr ''true'')), Tick, ReadSettled (Resolved (JStr ''true''))]
        poll_init)
      = [CallReadProperty ''on'', SetOption ''Content-Format'' ''application/json'',
         SetCode ''2.05'', Write ''true'', OnFinish,
         CallReadProperty ''on'', SetOption ''Content-Format'' ''application/json'',
         SetCode ''2.05'', Write ''true'', OnFinish]"
proof -
  have on: "timer_on poll_init" and opn: "\<not> ended poll_init"
    by (simp_all add: poll_init_def)
  note T = poll_never_skips_a_tick [OF on opn ex_serialize, where k = "Suc (Suc 0)"]
  have evs: "concat (replicate (Suc (Suc 0)) [Tick, ReadSettled (Resolved (JStr ''true''))])
      = [Tick, ReadSettled (Resolved (JStr ''true'')), Tick, ReadSettled (Resolved (JStr ''true''))]"
    by simp
  have 1: "in_flight (poll_run ex_helpers ex_codec lamp ''on'' lamp_on
        [Tick, ReadSettled (Resolved (JStr ''true'')), Tick, ReadSettled (Resolved (JStr ''true''))]
        poll_init) = 2"
    using T [THEN conjunct2, THEN conjunct2, THEN conjunct2, THEN conjunct1] unfolding evs
    by (simp add: poll_init_def)
  have 2: "poll_log (poll_run ex_helpers ex_codec lamp ''on'' lamp_on
        [Tick, ReadSettled (Resolved (JStr ''true'')), Tick, ReadSettled (Resolved (JStr ''true''))]
        poll_init)
      = [CallReadProperty ''on'', SetOption ''Content-Format'' ''application/json'',
         SetCode ''2.05'', Write ''true'', OnFinish,
         CallReadProperty ''on'', SetOption ''Content-Format'' ''application/json'',
         SetCode ''2.05'', Write ''true'', OnFinish]"
    using T [THEN conjunct2, THEN conjunct2, THEN conjunct2, THEN conjunct2, THEN conjunct1]
    unfolding evs
    by (simp add: poll_init_def)
  show ?thesis
    using on opn 1 2 by blast
qed

text \<open>
  The claim as stated fails on the lamp. Two ticks in a row call \<^verbatim>\<open>readProperty\<close>
  twice: the second tick is not skipped although the notification of the first has not
  even been written. And after the first notification has been written and before the
  transport has reported it transmitted (one notification in flight), the next tick
  still calls \<^verbatim>\<open>readProperty\<close>, and when that read resolves a second notification
  is written, so that two are in flight.
\<close>

theorem poll_in_flight_counterexample:
  "poll_run ex_helpers ex_codec lamp ''on'' lamp_on [Tick, Tick] poll_init
     = poll_init\<lparr>pending := 2, poll_log := [CallReadProperty ''on'', CallReadProperty ''on'']\<rparr>
   \<and> in_flight (poll_run ex_helpers ex_codec lamp ''on'' lamp_on
      [Tick, ReadSettled (Resolved (JStr ''true''))] poll_init) = 1
   \<and> poll_log (poll_run ex_helpers ex_codec lamp ''on'' lamp_on
        [Tick, ReadSettled (Resolved (JStr ''true'')), Tick] poll_init)
      = [CallReadProperty ''on'', SetOption ''Content-Format'' ''application/json'',
         SetCode ''2.05'', Write ''true'', OnFinish, CallReadProperty ''on'']
   \<and> in_flight (poll_run ex_helpers ex_codec lamp ''on'' lamp_on
        [Tick, ReadSettled (Resolved (JStr ''true'')), Tick,
         ReadSettled (Resolved (JStr ''false''))] poll_init) = 2
   \<and> writes (poll_log (poll_run ex_helpers ex_codec lamp ''on'' lamp_on
        [Tick, ReadSettled (Resolved (JStr ''true'')), Tick,
         ReadSettled (Resolved (JStr ''false''))] poll_init)) = [''true'', ''false'']"
  by (simp add: poll_run_def poll_init_def poll_then_def ex_serialize)

text \<open>
  Claim C3, amended. When the read of a tick fails (the promise is rejected or the value
  cannot be converted), the \<^verbatim>\<open>catch\<close> callback sets the status 5.00 and ends the
  response with the message of the error: one call of \<^verbatim>\<open>res.end\<close> and no
  \<^verbatim>\<open>res.write\<close>. The callback does not clear the timer, so a later tick still calls
  \<^verbatim>\<open>readProperty\<close>; but the response has been ended, and whatever happens later
  delivers no further notification on it.
\<close>

theorem poll_failure_ends_the_response:
  assumes "0 < pending s" and "read_failure h c t n p outcome = Some msg"
  shows "poll_step h c t n p (ReadSettled outcome) s =
           s\<lparr>pending := pending s - 1, ended := True,
             poll_log := poll_log s @ [SetCode ''5.00'', End (Some msg)]\<rparr>
       \<and> timer_on (poll_step h c t n p (ReadSettled outcome) s) = timer_on s
       \<and> (timer_on s \<longrightarrow>
            poll_log (poll_step h c t n p Tick (poll_step h c t n p (ReadSettled outcome) s))
              = poll_log s @ [SetCode ''5.00'', End (Some msg), CallReadProperty n])
       \<and> delivered (poll_log (poll_run h c t n p evs (poll_step h c t n p (ReadSettled outcome) s)))
           = delivered (poll_log s)"
proof -
  let ?s' = "poll_step h c t n p (ReadSettled outcome) s"
  have step: "?s' = s\<lparr>pending := pending s - 1, ended := True,
             poll_log := poll_log s @ [SetCode ''5.00'', End (Some msg)]\<rparr>"
    using assms
    by (auto simp: read_failure_def poll_then_def poll_catch_def respond_def
        split: settled.splits sum.splits)
  obtain zs where z: "poll_log (poll_run h c t n p evs ?s') = poll_log ?s' @ zs"
    using poll_run_log by blast
  have del: "delivered (poll_log (poll_run h c t n p evs ?s')) = delivered (poll_log s)"
    unfolding z unfolding step by (simp add: delivered_until_end)
  have tm: "timer_on ?s' = timer_on s"
    unfolding step by simp
  have tick: "timer_on s \<longrightarrow>
      poll_log (poll_step h c t n p Tick ?s')
        = poll_log s @ [SetCode ''5.00'', End (Some msg), CallReadProperty n]"
    unfolding step by simp
  show ?thesis
    using step tm tick del by blast
qed

theorem poll_failure_ends_the_response_witness:
  "0 < pending (poll_step ex_helpers ex_codec lamp ''on'' lamp_on Tick poll_init)
   \<and> read_failure ex_helpers ex_codec lamp ''on'' lamp_on (Rejected ''boom'') = Some ''boom''
   \<and> poll_run ex_helpers ex_codec lamp ''on'' lamp_on [Tick, ReadSettled (Rejected ''boom'')] poll_init
      = \<lparr>timer_on = True, pending = 0, finish_listeners = 0, ended = True, in_flight = 0,
         poll_log = [CallReadProperty ''on'', SetCode ''5.00'', End (Some ''boom'')]\<rparr>
   \<and> delivered (poll_log (poll_run ex_helpers ex_codec lamp ''on'' lamp_on
        [Tick, ReadSettled (Resolved (JStr ''true''))]
        (poll_step ex_helpers ex_codec lamp ''on'' lamp_on (ReadSettled (Rejected ''boom''))
          (poll_step ex_helpers ex_codec lamp ''on'' lamp_on Tick poll_init)))) = []"
proof -
  let ?s = "poll_step ex_helpers ex_codec lamp ''on'' lamp_on Tick poll_init"
  have pend: "0 < pending ?s"
    by (simp add: poll_init_def)
  have fail: "read_failure ex_helpers ex_codec lamp ''on'' lamp_on (Rejected ''boom'') = Some ''boom''"
    by (simp add: read_failure_def)
  note T = poll_failure_ends_the_response [OF pend fail,
      where evs = "[Tick, ReadSettled (Resolved (JStr ''true''))]"]
  have 1: "poll_run ex_helpers ex_codec lamp ''on'' lamp_on [Tick, ReadSettled (Rejected ''boom'')]
        poll_init
      = \<lparr>timer_on = True, pending = 0, finish_listeners = 0, ended = True, in_flight = 0,
         poll_log = [CallReadProperty ''on'', SetCode ''5.00'', End (Some ''boom'')]\<rparr>"
    using T [THEN conjunct1] by (simp add: poll_run_def poll_init_def)
  have 2: "delivered (poll_log (poll_run ex_helpers ex_codec lamp ''on'' lamp_on
        [Tick, ReadSettled (Resolved (JStr ''true''))]
        (poll_step ex_helpers ex_codec lamp ''on'' lamp_on (ReadSettled (Rejected ''boom'')) ?s))) = []"
    using T [THEN conjunct2, THEN conjunct2, THEN conjunct2] by (simp add: poll_init_def)
  show ?thesis
    using pend fail 1 2 by blast
qed

text \<open>
  The claim as stated fails on the lamp. When the first read fails, the response is
  ended: the next tick reads and writes, but to the ended response, and nothing is
  delivered. When a read fails after one that succeeded and the response then emits
  \<^verbatim>\<open>finish\<close>, as a response does once it has been ended, the listener that the
  earlier success registered clears the timer, and the next tick no longer reads.
\<close>

theorem poll_failure_counterexample:
  "poll_log (poll_run ex_helpers ex_codec lamp ''on'' lamp_on
      [Tick, ReadSettled (Rejected ''boom''), Tick, ReadSettled (Resolved (JStr ''true''))]
      poll_init)
     = [CallReadProperty ''on'', SetCode ''5.00'', End (Some ''boom''),
        CallReadProperty ''on'', SetOption ''Content-Format'' ''application/json'',
        SetCode ''2.05'', Write ''true'', OnFinish]
   \<and> ended (poll_run ex_helpers ex_codec lamp ''on'' lamp_on
        [Tick, ReadSettled (Rejected ''boom'')] poll_init)
   \<and> delivered (poll_log (poll_run ex_helpers ex_codec lamp ''on'' lamp_on
        [Tick, ReadSettled (Rejected ''boom''), Tick, ReadSettled (Resolved (JStr ''true''))]
        poll_init)) = []
   \<and> \<not> timer_on (poll_run ex_helpers ex_codec lamp ''on'' lamp_on
        [Tick, ReadSettled (Resolved (JStr ''true'')), Tick, ReadSettled (Rejected ''boom''),
         Finish] poll_init)
   \<and> poll_log (poll_run ex_helpers ex_codec lamp ''on'' lamp_on
        [Tick, ReadSettled (Resolved (JStr ''true'')), Tick, ReadSettled (Rejected ''boom''),
         Finish, Tick] poll_init)
     = [CallReadProperty ''on'', SetOption ''Content-Format'' ''application/json'',
        SetCode ''2.05'', Write ''true'', OnFinish,
        CallReadProperty ''on'', SetCode ''5.00'', End (Some ''boom''),
        ClearInterval, End None]"
  by (simp add: poll_run_def poll_init_def poll_then_def poll_catch_def poll_finish_def
      respond_def ex_serialize)

text \<open>
  Claim C2 on the code. The listener that clears the timer is registered by the
  \<^verbatim>\<open>then\<close> callback, after the first notification has been written. When
  \<^verbatim>\<open>finish\<close> comes before that (at once, or because the first read failed and the
  \<^verbatim>\<open>catch\<close> callback ended the response), no listener runs: the timer stays on, the
  next tick reads, and a notification is written after the signal.
\<close>

theorem poll_finish_before_first_notification:
  "poll_run ex_helpers ex_codec lamp ''on'' lamp_on [Finish] poll_init = poll_init
   \<and> timer_on (poll_run ex_helpers ex_codec lamp ''on'' lamp_on
        [Finish, Tick, ReadSettled (Resolved (JStr ''true''))] poll_init)
   \<and> poll_log (poll_run ex_helpers ex_codec lamp ''on'' lamp_on
        [Finish, Tick, ReadSettled (Resolved (JStr ''true''))] poll_init)
     = [CallReadProperty ''on'', SetOption ''Content-Format'' ''application/json'',
        SetCode ''2.05'', Write ''true'', OnFinish]
   \<and> delivered (poll_log (poll_run ex_helpers ex_codec lamp ''on'' lamp_on
        [Finish, Tick, ReadSettled (Resolved (JStr ''true''))] poll_init)) = [''true'']
   \<and> timer_on (poll_run ex_helpers ex_codec lamp ''on'' lamp_on
        [Tick, ReadSettled (Rejected ''boom''), Finish] poll_init)
   \<and> poll_log (poll_run ex_helpers ex_codec lamp ''on'' lamp_on
        [Tick, ReadSettled (Rejected ''boom''), Finish, Tick] poll_init)
     = [CallReadProperty ''on'', SetCode ''5.00'', End (Some ''boom''), CallReadProperty ''on'']"
  by (simp add: poll_run_def poll_init_def poll_then_def poll_catch_def poll_finish_def
      respond_def ex_serialize)






end
